theory Spec2Isabelle
  imports Complex_Main
begin

section \<open>JavaScript values used by the analyzer\<close>

text \<open>
  A JavaScript string is a sequence of UTF-16 code units and \<open>.length\<close> counts them.
  \<^typ>\<open>string\<close> stands for such a sequence with one \<^typ>\<open>char\<close> per code unit; the
  model covers the strings whose code units are all below 256.

  \<open>String.prototype.trim\<close> removes the white space and line terminators of ECMAScript
  from both ends. Below 256 these are TAB, LF, VT, FF, CR, SPACE and NO-BREAK SPACE.
\<close>

definition isWhiteSpace :: "char \<Rightarrow> bool" where
  "isWhiteSpace c = (of_char c \<in> {9, 10, 11, 12, 13, 32, 160 :: nat})"

definition trim :: "string \<Rightarrow> string" where
  "trim s = rev (dropWhile isWhiteSpace (rev (dropWhile isWhiteSpace s)))"

text \<open>
  A value of type \<open>string | null | undefined\<close> is a \<^typ>\<open>string option\<close>. It is falsy
  when it is null, undefined or the empty string; \<open>x || d\<close> is \<open>orElse x d\<close>.
\<close>

fun falsy :: "string option \<Rightarrow> bool" where
  "falsy None = True"
| "falsy (Some s) = (s = [])"

fun orElse :: "string option \<Rightarrow> string \<Rightarrow> string" where
  "orElse None d = d"
| "orElse (Some s) d = (if s = [] then d else s)"

fun orNull :: "string option \<Rightarrow> string option" where
  "orNull None = None"
| "orNull (Some s) = (if s = [] then None else Some s)"

text \<open>\<open>Number.prototype.toString\<close> on an array length: the decimal digits.\<close>

fun toString :: "nat \<Rightarrow> string" where
  "toString n =
     (if n < 10 then [char_of (48 + n)]
      else toString (n div 10) @ [char_of (48 + n mod 10)])"

declare toString.simps [simp del]

text \<open>\<open>Array.prototype.join\<close> and \<open>String.prototype.split\<close> with a one-character separator.\<close>

fun join :: "string \<Rightarrow> string list \<Rightarrow> string" where
  "join sep [] = []"
| "join sep [x] = x"
| "join sep (x # y # ys) = x @ sep @ join sep (y # ys)"

fun split :: "char \<Rightarrow> string \<Rightarrow> string list" where
  "split sep [] = [[]]"
| "split sep (c # cs) =
     (if c = sep then [] # split sep cs
      else (case split sep cs of
              [] \<Rightarrow> [[c]]
            | w # ws \<Rightarrow> (c # w) # ws))"

text \<open>\<open>replace(/x/g, ' ')\<close> for a single character \<open>x\<close>.\<close>

definition replaceAll :: "char \<Rightarrow> char \<Rightarrow> string \<Rightarrow> string" where
  "replaceAll x y s = map (\<lambda>c. if c = x then y else c) s"

text \<open>
  \<open>toUpperCase\<close> on one code unit. The only caller applies it to a piece of
  \<open>new URL(url).pathname\<close>, which the URL parser serialises in ASCII (everything else is
  percent-encoded); there it maps \<open>a\<close>..\<open>z\<close> to \<open>A\<close>..\<open>Z\<close> and changes nothing else.
\<close>

definition toUpperCase :: "char \<Rightarrow> char" where
  "toUpperCase c =
     (let n = (of_char c :: nat) in if 97 \<le> n \<and> n \<le> 122 then char_of (n - 32) else c)"

text \<open>\<open>word.charAt(0).toUpperCase() + word.slice(1)\<close>\<close>

fun capitalize :: "string \<Rightarrow> string" where
  "capitalize [] = []"
| "capitalize (c # cs) = toUpperCase c # cs"

text \<open>
  JavaScript numbers that come out of a division: a finite value, \<open>NaN\<close> or an infinity.
  A finite value is a rational; \<open>jsDivide\<close> and \<open>jsTimes\<close> give the exact quotient and
  product, and \<open>double\<close> below rounds a result to the binary64 value the runtime keeps.
  \<open>Math.round\<close> is the integer closest to its argument, the larger one on a tie.
\<close>

datatype jsnum = Num rat | NaN | PosInfinity | NegInfinity

definition jsDivide :: "rat \<Rightarrow> rat \<Rightarrow> jsnum" where
  "jsDivide a b =
     (if b = 0 then (if a = 0 then NaN else if 0 < a then PosInfinity else NegInfinity)
      else Num (a / b))"

fun jsTimes :: "jsnum \<Rightarrow> rat \<Rightarrow> jsnum" where
  "jsTimes (Num a) k = Num (a * k)"
| "jsTimes NaN k = NaN"
| "jsTimes PosInfinity k = (if k = 0 then NaN else if 0 < k then PosInfinity else NegInfinity)"
| "jsTimes NegInfinity k = (if k = 0 then NaN else if 0 < k then NegInfinity else PosInfinity)"

fun mathRound :: "jsnum \<Rightarrow> jsnum" where
  "mathRound (Num q) = Num (of_int \<lfloor>q + 1 / 2\<rfloor>)"
| "mathRound NaN = NaN"
| "mathRound PosInfinity = PosInfinity"
| "mathRound NegInfinity = NegInfinity"

fun isInteger :: "jsnum \<Rightarrow> bool" where
  "isInteger (Num q) = (of_int \<lfloor>q\<rfloor> = q)"
| "isInteger NaN = False"
| "isInteger PosInfinity = False"
| "isInteger NegInfinity = False"

text \<open>
  Rounding to binary64, to nearest with ties to even: a value \<open>q\<close> with
  \<open>2 ^ e \<le> \<bar>q\<bar> < 2 ^ (e + 1)\<close> becomes the nearest multiple of \<open>2 ^ (e - 52)\<close>. This is
  the normal range of the format; the quotients and products of page counts rounded here
  lie far inside it (overflow and subnormal numbers start beyond \<open>2 ^ 1023\<close> and below
  \<open>2 ^ - 1022\<close>).
\<close>

function bitLength :: "int \<Rightarrow> nat" where
  "bitLength n = (if n \<le> 0 then 0 else Suc (bitLength (n div 2)))"
  by pat_completeness auto
termination
  by (relation "measure nat") auto

declare bitLength.simps [simp del]

definition pow2 :: "int \<Rightarrow> rat" where
  "pow2 k = (if 0 \<le> k then 2 ^ nat k else 1 / 2 ^ nat (- k))"

text \<open>The exponent \<open>e\<close> of a positive rational, from the bit lengths of its two parts.\<close>

definition exponentOf :: "rat \<Rightarrow> int" where
  "exponentOf q =
     (let (n, d) = quotient_of q;
          k = int (bitLength n) - int (bitLength d)
      in if pow2 k \<le> q then k else k - 1)"

definition roundHalfEven :: "rat \<Rightarrow> int" where
  "roundHalfEven m =
     (let f = \<lfloor>m\<rfloor>; r = m - of_int f
      in if r < 1 / 2 then f else if 1 / 2 < r then f + 1 else if even f then f else f + 1)"

definition binary64 :: "rat \<Rightarrow> rat" where
  "binary64 q =
     (if q = 0 then 0
      else let ulp = pow2 (exponentOf \<bar>q\<bar> - 52)
           in sgn q * of_int (roundHalfEven (\<bar>q\<bar> / ulp)) * ulp)"

fun double :: "jsnum \<Rightarrow> jsnum" where
  "double (Num q) = Num (binary64 q)"
| "double NaN = NaN"
| "double PosInfinity = PosInfinity"
| "double NegInfinity = NegInfinity"

section \<open>The data model of SeoAnalyzer.ts\<close>

datatype issue_type = Error | Warning | Info

datatype issue_category = Title | MetaDescription | H1 | Images

record SeoIssue =
  type :: issue_type
  category :: issue_category
  message :: string
  details :: "string option"

text \<open>
  The object literals \<open>{ text, count }\<close> and \<open>{ src, alt }\<close> of \<open>seoDetails\<close> are pairs.
\<close>

record SeoDetails =
  titleText :: "string option"
  metaDescription :: "string option"
  h1Tags :: "(string \<times> nat) list"
  imagesWithoutAlt :: "(string \<times> string option) list"

record PageAnalysis =
  url :: string
  title :: string
  issues :: "SeoIssue list"
  score :: int
  crawled :: bool
  seoDetails :: SeoDetails

section \<open>The parsed document\<close>

text \<open>
  \<open>analyzePage\<close> reads the document that \<open>DOMParser.parseFromString\<close> returns through four
  queries only, so a document is what these queries give:
  \<^item> \<open>querySelector('title')\<close>: the \<open>textContent\<close> of the first title element, if there is one;
  \<^item> \<open>querySelector('meta[name="description"]')\<close>: the \<open>content\<close> attribute of the first
    such element (\<open>None\<close> inside when the attribute is absent), if there is one;
  \<^item> \<open>querySelectorAll('h1')\<close>: the \<open>textContent\<close> of every h1 element, in document order;
  \<^item> \<open>querySelectorAll('img')\<close>: the \<open>alt\<close> and \<open>src\<close> attributes of every img element.
\<close>

record img_element =
  alt :: "string option"
  src :: "string option"

record document =
  titleElement :: "string option"
  metaElement :: "string option option"
  h1Elements :: "string list"
  images :: "img_element list"

text \<open>
  The browser supplies the HTML parser and the URL parser. \<open>pathname\<close> is
  \<open>new URL(url).pathname\<close>, \<open>None\<close> when the constructor throws.
\<close>

record browser =
  parseFromString :: "string \<Rightarrow> document"
  pathname :: "string \<Rightarrow> string option"

section \<open>SeoAnalyzer.analyzePage\<close>

text \<open>Each check takes the issues and the score so far and returns them updated.\<close>

type_synonym progress = "SeoIssue list \<times> int"

definition checkTitle :: "document \<Rightarrow> progress \<Rightarrow> progress" where
  "checkTitle doc = (\<lambda>(issues, score).
     let missing =
       (issues @ [\<lparr>type = Error, category = Title, message = ''Missing title tag'',
           details = Some ''Every page should have a unique title tag for SEO''\<rparr>],
        score - 20)
     in case titleElement doc of
       None \<Rightarrow> missing
     | Some textContent \<Rightarrow>
         if falsy (Some (trim textContent)) then missing
         else if length textContent > 60 then
           (issues @ [\<lparr>type = Warning, category = Title, message = ''Title tag too long'',
               details = Some (''Title is '' @ toString (length textContent)
                 @ '' characters. Recommended: 50-60 characters'')\<rparr>],
            score - 10)
         else if length textContent < 30 then
           (issues @ [\<lparr>type = Warning, category = Title, message = ''Title tag too short'',
               details = Some (''Title is '' @ toString (length textContent)
                 @ '' characters. Recommended: 30-60 characters'')\<rparr>],
            score - 5)
         else (issues, score))"

definition checkMetaDescription :: "document \<Rightarrow> progress \<Rightarrow> progress" where
  "checkMetaDescription doc = (\<lambda>(issues, score).
     let missing =
       (issues @ [\<lparr>type = Error, category = MetaDescription,
           message = ''Missing meta description'',
           details = Some ''Meta descriptions help search engines understand your page content''\<rparr>],
        score - 20)
     in case metaElement doc of
       None \<Rightarrow> missing
     | Some attr \<Rightarrow>
         if falsy (map_option trim attr) then missing
         else
           let content = orElse attr [] in
           if length content > 160 then
             (issues @ [\<lparr>type = Warning, category = MetaDescription,
                 message = ''Meta description too long'',
                 details = Some (''Description is '' @ toString (length content)
                   @ '' characters. Recommended: 120-160 characters'')\<rparr>],
              score - 10)
           else if length content < 120 then
             (issues @ [\<lparr>type = Warning, category = MetaDescription,
                 message = ''Meta description too short'',
                 details = Some (''Description is '' @ toString (length content)
                   @ '' characters. Recommended: 120-160 characters'')\<rparr>],
              score - 5)
           else (issues, score))"

definition checkH1 :: "document \<Rightarrow> progress \<Rightarrow> progress" where
  "checkH1 doc = (\<lambda>(issues, score).
     if length (h1Elements doc) = 0 then
       (issues @ [\<lparr>type = Error, category = H1, message = ''Missing H1 tag'',
           details = Some ''Every page should have exactly one H1 tag for SEO hierarchy''\<rparr>],
        score - 15)
     else if length (h1Elements doc) > 1 then
       (issues @ [\<lparr>type = Warning, category = H1, message = ''Multiple H1 tags found'',
           details = Some (''Found '' @ toString (length (h1Elements doc))
             @ '' H1 tags. Recommended: exactly 1 H1 per page'')\<rparr>],
        score - 10)
     else (issues, score))"

text \<open>The \<open>forEach\<close> over the img elements keeps those with \<open>!alt || alt.trim() === ''\<close>.\<close>

definition lacksAlt :: "img_element \<Rightarrow> bool" where
  "lacksAlt img = (falsy (alt img) \<or> map_option trim (alt img) = Some [])"

definition collectImagesWithoutAlt :: "document \<Rightarrow> (string \<times> string option) list" where
  "collectImagesWithoutAlt doc =
     map (\<lambda>img. (orElse (src img) [], alt img)) (filter lacksAlt (images doc))"

definition checkImages :: "document \<Rightarrow> progress \<Rightarrow> progress" where
  "checkImages doc = (\<lambda>(issues, score).
     let n = length (collectImagesWithoutAlt doc) in
     if n > 0 then
       (issues @ [\<lparr>type = Warning, category = Images,
           message = toString n @ '' images without alt attributes'',
           details = Some ''Alt attributes improve accessibility and help search engines understand image content''\<rparr>],
        score - min (int n * 2) 15)
     else (issues, score))"

text \<open>The title shown for the page: the title tag, else the first h1, else the URL.\<close>

definition titleFromUrl :: "browser \<Rightarrow> string \<Rightarrow> string" where
  "titleFromUrl b u =
     (case pathname b u of
        None \<Rightarrow> ''No title''
      | Some urlPath \<Rightarrow>
          let pathParts = filter (\<lambda>part. length part > 0) (split CHR ''/'' urlPath) in
          if length pathParts > 0 then
            orElse (Some (join '' '' (map capitalize
              (split CHR '' '' (replaceAll CHR ''_'' CHR '' ''
                (replaceAll CHR ''-'' CHR '' '' (last pathParts))))))) ''No title''
          else ''No title'')"

definition titleFallback :: "browser \<Rightarrow> string \<Rightarrow> document \<Rightarrow> string" where
  "titleFallback b u doc =
     (let firstH1 = (case h1Elements doc of [] \<Rightarrow> [] | h1 # _ \<Rightarrow> trim h1)
      in if \<not> falsy (Some firstH1) \<and> length firstH1 > 3 then firstH1
         else titleFromUrl b u)"

definition pageTitle :: "browser \<Rightarrow> string \<Rightarrow> document \<Rightarrow> string" where
  "pageTitle b u doc =
     (case map_option trim (titleElement doc) of
        None \<Rightarrow> titleFallback b u doc
      | Some t \<Rightarrow>
          if \<not> falsy (Some t) \<and> length t > 0 then t
          else titleFallback b u doc)"

definition analyzePage :: "browser \<Rightarrow> string \<Rightarrow> string \<Rightarrow> PageAnalysis" where
  "analyzePage b u html =
     (let doc = parseFromString b html;
          (issues, score) =
             checkImages doc (checkH1 doc (checkMetaDescription doc (checkTitle doc ([], 100))));
          h1TagDetails = map (\<lambda>h1. orElse (Some (trim h1)) []) (h1Elements doc)
      in \<lparr>url = u,
          title = pageTitle b u doc,
          issues = issues,
          score = max 0 score,
          crawled = True,
          seoDetails = \<lparr>
            titleText = orNull (map_option trim (titleElement doc)),
            metaDescription = orNull (map_option trim (Option.bind (metaElement doc) id)),
            h1Tags = [(join '', '' h1TagDetails, length (h1Elements doc))],
            imagesWithoutAlt = collectImagesWithoutAlt doc\<rparr>\<rparr>)"

section \<open>SeoAnalyzer.generateSummary\<close>

text \<open>
  The counter objects \<open>issuesByType\<close> and \<open>issuesByCategory\<close> have one key per value of
  the enumeration, so they are total functions; \<open>Object.entries\<close> lists the keys in the
  order the literal wrote them.
\<close>

record Summary =
  totalPages :: nat
  totalIssues :: nat
  averageScore :: jsnum
  issuesByType :: "issue_type \<Rightarrow> nat"
  issuesByCategory :: "issue_category \<Rightarrow> nat"
  topIssues :: "(issue_category \<times> nat) list"

type_synonym counters = "(issue_type \<Rightarrow> nat) \<times> (issue_category \<Rightarrow> nat)"

definition countIssue :: "counters \<Rightarrow> SeoIssue \<Rightarrow> counters" where
  "countIssue = (\<lambda>(byType, byCategory) issue.
     (byType (type issue := byType (type issue) + 1),
      byCategory (category issue := byCategory (category issue) + 1)))"

definition countPage :: "counters \<Rightarrow> PageAnalysis \<Rightarrow> counters" where
  "countPage c page = foldl countIssue c (issues page)"

definition entries :: "(issue_category \<Rightarrow> nat) \<Rightarrow> (issue_category \<times> nat) list" where
  "entries byCategory =
     [(Title, byCategory Title), (MetaDescription, byCategory MetaDescription),
      (H1, byCategory H1), (Images, byCategory Images)]"

text \<open>
  \<open>Array.prototype.sort\<close> with a comparator is stable: it is the insertion sort that puts
  an element before the first later one it does not compare greater than.
\<close>

fun insertSorted :: "('a \<Rightarrow> 'a \<Rightarrow> int) \<Rightarrow> 'a \<Rightarrow> 'a list \<Rightarrow> 'a list" where
  "insertSorted cmp x [] = [x]"
| "insertSorted cmp x (y # ys) =
     (if cmp x y \<le> 0 then x # y # ys else y # insertSorted cmp x ys)"

definition sortWith :: "('a \<Rightarrow> 'a \<Rightarrow> int) \<Rightarrow> 'a list \<Rightarrow> 'a list" where
  "sortWith cmp xs = foldr (insertSorted cmp) xs []"

definition generateSummary :: "PageAnalysis list \<Rightarrow> Summary" where
  "generateSummary analyses =
     (let totalPages = length analyses;
          totalIssues = foldl (\<lambda>sum page. sum + length (issues page)) 0 analyses;
          averageScore =
            jsDivide (of_int (foldl (\<lambda>sum page. sum + score page) 0 analyses))
              (of_nat totalPages);
          (issuesByType, issuesByCategory) = foldl countPage (\<lambda>_. 0, \<lambda>_. 0) analyses
      in \<lparr>totalPages = totalPages,
          totalIssues = totalIssues,
          averageScore = mathRound averageScore,
          issuesByType = issuesByType,
          issuesByCategory = issuesByCategory,
          topIssues =
            take 3 (sortWith (\<lambda>(_, a) (_, b). int b - int a) (entries issuesByCategory))\<rparr>)"

section \<open>SeoDataExtractor\<close>

record SeoDataRow =
  url :: string
  titleContent :: string
  titleIssue :: string
  metaDescription :: string
  metaIssue :: string
  h1Count :: nat
  h1Content :: string
  h1Issue :: string
  imagesWithoutAlt :: nat
  totalImages :: nat
  titleSuggestion :: string
  metaSuggestion :: string
  h1Suggestion :: string
  imageSuggestion :: string

definition extractRow :: "PageAnalysis \<Rightarrow> SeoDataRow" where
  "extractRow analysis =
     (let d = seoDetails analysis;
          titleContent = orElse (titleText d) ''MISSING'';
          titleLength = (if titleContent = ''MISSING'' then 0 else length titleContent);
          (titleIssue, titleSuggestion) =
            (if falsy (titleText d) then
               (''Missing'',
                ''Add a unique, descriptive title tag (30-60 characters) that includes your main keyword.'')
             else if titleLength > 60 then
               (''Too Long'',
                ''Shorten your title to 50-60 characters (currently '' @ toString titleLength
                  @ ''). Focus on your main keyword and value proposition.'')
             else if titleLength < 30 then
               (''Too Short'',
                ''Expand your title to 30-60 characters (currently '' @ toString titleLength
                  @ ''). Add more descriptive keywords.'')
             else (''Good'', ''Your title tag is well optimized.''));
          metaDescription = orElse (SeoDetails.metaDescription d) ''MISSING'';
          metaLength = (if metaDescription = ''MISSING'' then 0 else length metaDescription);
          (metaIssue, metaSuggestion) =
            (if falsy (SeoDetails.metaDescription d) then
               (''Missing'',
                ''Add a compelling meta description (120-160 characters) that summarizes your page and includes relevant keywords.'')
             else if metaLength > 160 then
               (''Too Long'',
                ''Shorten your meta description to 120-160 characters (currently ''
                  @ toString metaLength @ ''). Focus on the most important benefits.'')
             else if metaLength < 120 then
               (''Too Short'',
                ''Expand your meta description to 120-160 characters (currently ''
                  @ toString metaLength @ ''). Add more compelling details.'')
             else (''Good'', ''Your meta description is well optimized.''));
          h1Count = (case h1Tags d of [] \<Rightarrow> 0 | (_, count) # _ \<Rightarrow> count);
          h1Content =
            (case h1Tags d of [] \<Rightarrow> ''MISSING'' | (text, _) # _ \<Rightarrow> orElse (Some text) ''MISSING'');
          (h1Issue, h1Suggestion) =
            (if h1Count = 0 then
               (''Missing'',
                ''Add exactly one H1 tag that clearly describes your page content and includes your main keyword.'')
             else if h1Count > 1 then
               (''Multiple H1s'',
                ''Use only one H1 tag per page (you have '' @ toString h1Count
                  @ ''). Convert extra H1s to H2 or H3 tags for proper hierarchy.'')
             else (''Good'', ''Your H1 tag structure is optimized.''));
          imagesWithoutAlt = length (SeoDetails.imagesWithoutAlt d);
          imageSuggestion =
            (if imagesWithoutAlt > 0 then
               ''Add descriptive alt text to '' @ toString imagesWithoutAlt
                 @ '' image(s). Alt text helps screen readers and search engines understand your images.''
             else ''All images have alt text - great for accessibility!'')
      in \<lparr>url = PageAnalysis.url analysis,
          titleContent = titleContent,
          titleIssue = titleIssue,
          metaDescription = metaDescription,
          metaIssue = metaIssue,
          h1Count = h1Count,
          h1Content = h1Content,
          h1Issue = h1Issue,
          imagesWithoutAlt = imagesWithoutAlt,
          totalImages = 0,
          titleSuggestion = titleSuggestion,
          metaSuggestion = metaSuggestion,
          h1Suggestion = h1Suggestion,
          imageSuggestion = imageSuggestion\<rparr>)"

definition extractSeoData :: "PageAnalysis list \<Rightarrow> SeoDataRow list" where
  "extractSeoData analyses = map extractRow analyses"

text \<open>The report of \<open>generateSummaryReport\<close>, its nested object literals flattened.\<close>

record SummaryReport =
  reportTotalPages :: nat
  missingTitlesCount :: nat
  missingTitlesPercentage :: jsnum
  missingMetaDescriptionsCount :: nat
  missingMetaDescriptionsPercentage :: jsnum
  noH1TagsCount :: nat
  noH1TagsPercentage :: jsnum
  multipleH1TagsCount :: nat
  multipleH1TagsPercentage :: jsnum
  imagesWithoutAltTotal :: nat
  imagesWithoutAltAveragePerPage :: jsnum

definition percentageOf :: "nat \<Rightarrow> nat \<Rightarrow> jsnum" where
  "percentageOf n pages =
     mathRound (double (jsTimes (double (jsDivide (of_nat n) (of_nat pages))) 100))"

definition generateSummaryReport :: "SeoDataRow list \<Rightarrow> SummaryReport" where
  "generateSummaryReport seoData =
     (let totalPages = length seoData;
          pagesWithMissingTitles = length (filter (\<lambda>row. titleIssue row = ''Missing'') seoData);
          pagesWithMissingMetaDesc = length (filter (\<lambda>row. metaIssue row = ''Missing'') seoData);
          pagesWithNoH1 = length (filter (\<lambda>row. h1Count row = 0) seoData);
          pagesWithMultipleH1 = length (filter (\<lambda>row. h1Count row > 1) seoData);
          totalImagesWithoutAlt = foldl (\<lambda>sum row. sum + imagesWithoutAlt row) 0 seoData
      in \<lparr>reportTotalPages = totalPages,
          missingTitlesCount = pagesWithMissingTitles,
          missingTitlesPercentage = percentageOf pagesWithMissingTitles totalPages,
          missingMetaDescriptionsCount = pagesWithMissingMetaDesc,
          missingMetaDescriptionsPercentage = percentageOf pagesWithMissingMetaDesc totalPages,
          noH1TagsCount = pagesWithNoH1,
          noH1TagsPercentage = percentageOf pagesWithNoH1 totalPages,
          multipleH1TagsCount = pagesWithMultipleH1,
          multipleH1TagsPercentage = percentageOf pagesWithMultipleH1 totalPages,
          imagesWithoutAltTotal = totalImagesWithoutAlt,
          imagesWithoutAltAveragePerPage =
            mathRound (double (jsDivide (of_nat totalImagesWithoutAlt) (of_nat totalPages)))\<rparr>)"

definition headers :: "string list" where
  "headers =
     [''Page URL'', ''Current Title Tag'', ''Title Issue'', ''Title Recommendation'',
      ''Current Meta Description'', ''Meta Issue'', ''Meta Recommendation'', ''H1 Count'',
      ''H1 Content'', ''H1 Issue'', ''H1 Recommendation'', ''Images Missing Alt Text'',
      ''Image Recommendation'']"

definition quoted :: "string \<Rightarrow> string" where
  "quoted s = [CHR 0x22] @ s @ [CHR 0x22]"

definition csvFields :: "SeoDataRow \<Rightarrow> string list" where
  "csvFields row =
     [quoted (url row), quoted (titleContent row), quoted (titleIssue row),
      quoted (titleSuggestion row), quoted (metaDescription row), quoted (metaIssue row),
      quoted (metaSuggestion row), toString (h1Count row), quoted (h1Content row),
      quoted (h1Issue row), quoted (h1Suggestion row), toString (imagesWithoutAlt row),
      quoted (imageSuggestion row)]"

definition convertToCSV :: "SeoDataRow list \<Rightarrow> string" where
  "convertToCSV seoData =
     (let csvRows = join '','' headers # map (\<lambda>row. join '','' (csvFields row)) seoData
      in join [CHR 0x0A] csvRows)"

section \<open>The terms of the specification\<close>

text \<open>
  What one check contributes when it runs on its own from a fresh score of 100: the issues
  it records and the points it deducts.
\<close>

definition issuesOf :: "(document \<Rightarrow> progress \<Rightarrow> progress) \<Rightarrow> document \<Rightarrow> SeoIssue list" where
  "issuesOf check doc = fst (check doc ([], 100))"

definition penaltyOf :: "(document \<Rightarrow> progress \<Rightarrow> progress) \<Rightarrow> document \<Rightarrow> int" where
  "penaltyOf check doc = 100 - snd (check doc ([], 100))"

definition issuesIn :: "issue_category \<Rightarrow> PageAnalysis \<Rightarrow> SeoIssue list" where
  "issuesIn c page = filter (\<lambda>issue. category issue = c) (issues page)"

text \<open>
  The four checks of the specification, each as the penalty it gives a document, and the
  score they add up to. The title and the meta description are measured after trimming; an
  img lacks a usable alt when the attribute is absent or trims to nothing. A document is
  unpadded when its title and its meta description have no white space at either end.
\<close>

definition specTitlePenalty :: "document \<Rightarrow> int" where
  "specTitlePenalty doc =
     (case titleElement doc of
        None \<Rightarrow> 20
      | Some s \<Rightarrow>
          let t = trim s
          in if t = [] then 20 else if length t > 60 then 10 else if length t < 30 then 5 else 0)"

definition specMetaPenalty :: "document \<Rightarrow> int" where
  "specMetaPenalty doc =
     (case metaElement doc of
        None \<Rightarrow> 20
      | Some None \<Rightarrow> 20
      | Some (Some s) \<Rightarrow>
          let c = trim s
          in if c = [] then 20 else if length c > 160 then 10 else if length c < 120 then 5 else 0)"

definition specH1Penalty :: "document \<Rightarrow> int" where
  "specH1Penalty doc =
     (let k = length (h1Elements doc) in if k = 0 then 15 else if k > 1 then 10 else 0)"

definition specLacksAlt :: "img_element \<Rightarrow> bool" where
  "specLacksAlt img = (case alt img of None \<Rightarrow> True | Some a \<Rightarrow> trim a = [])"

definition specImagesPenalty :: "document \<Rightarrow> int" where
  "specImagesPenalty doc =
     (let n = length (filter specLacksAlt (images doc)) in if n > 0 then min (int n * 2) 15 else 0)"

definition specScore :: "document \<Rightarrow> int" where
  "specScore doc =
     max 0 (100 - (specTitlePenalty doc + specMetaPenalty doc + specH1Penalty doc
       + specImagesPenalty doc))"

definition unpadded :: "document \<Rightarrow> bool" where
  "unpadded doc =
     ((case titleElement doc of None \<Rightarrow> True | Some s \<Rightarrow> trim s = s)
      \<and> (case metaElement doc of Some (Some c) \<Rightarrow> trim c = c | _ \<Rightarrow> True))"

text \<open>
  The display title of the specification: the trimmed title text if non-empty, else the
  trimmed text of the first h1 if longer than 3, else the last non-empty path segment with
  \<open>-\<close> and \<open>_\<close> turned into spaces and each word capitalized, else \<open>No title\<close>.
  Capitalizing each word is written as one pass over the characters: a character is put in
  upper case when it starts the text or follows a space.
\<close>

fun capitalizeWords :: "bool \<Rightarrow> string \<Rightarrow> string" where
  "capitalizeWords atStart [] = []"
| "capitalizeWords atStart (c # cs) =
     (if c = CHR '' '' then c # capitalizeWords True cs
      else (if atStart then toUpperCase c else c) # capitalizeWords False cs)"

definition specUrlTitle :: "string option \<Rightarrow> string" where
  "specUrlTitle path =
     (case path of
        None \<Rightarrow> ''No title''
      | Some p \<Rightarrow>
          (case rev (filter (\<lambda>segment. segment \<noteq> []) (split CHR ''/'' p)) of
             [] \<Rightarrow> ''No title''
           | segment # _ \<Rightarrow>
               let t = capitalizeWords True
                     (map (\<lambda>c. if c = CHR ''-'' \<or> c = CHR ''_'' then CHR '' '' else c) segment)
               in if t = [] then ''No title'' else t))"

definition specTitle :: "browser \<Rightarrow> string \<Rightarrow> document \<Rightarrow> string" where
  "specTitle b u doc =
     (let t = (case titleElement doc of None \<Rightarrow> [] | Some s \<Rightarrow> trim s);
          h = (case h1Elements doc of [] \<Rightarrow> [] | s # _ \<Rightarrow> trim s)
      in if t \<noteq> [] then t
         else if length h > 3 then h
         else specUrlTitle (pathname b u))"

text \<open>
  The ranking of the specification: a category comes before another when its count is
  larger, or the counts are equal and it comes first in the enumeration.
\<close>

fun categoryIndex :: "issue_category \<Rightarrow> nat" where
  "categoryIndex Title = 0"
| "categoryIndex MetaDescription = 1"
| "categoryIndex H1 = 2"
| "categoryIndex Images = 3"

definition ranksBefore :: "issue_category \<times> nat \<Rightarrow> issue_category \<times> nat \<Rightarrow> bool" where
  "ranksBefore x y =
     (snd y < snd x \<or> (snd x = snd y \<and> categoryIndex (fst x) < categoryIndex (fst y)))"

text \<open>The lines of a text, and the string fields of a row that the CSV writes.\<close>

definition lines :: "string \<Rightarrow> string list" where
  "lines s = split (CHR 0x0A) s"

definition stringFields :: "SeoDataRow \<Rightarrow> string list" where
  "stringFields row =
     [url row, titleContent row, titleIssue row, titleSuggestion row, metaDescription row,
      metaIssue row, metaSuggestion row, h1Content row, h1Issue row, h1Suggestion row,
      imageSuggestion row]"

definition singleLine :: "string \<Rightarrow> bool" where
  "singleLine s = (CHR 0x0A \<notin> set s)"

text \<open>
  The CSV of the specification: the header line as one text, and a row as its fields in
  column order, each string field between double quotes exactly as it is, the two numbers
  in decimal without quotes.
\<close>

definition doubleQuote :: char where
  "doubleQuote = CHR 0x22"

definition specHeader :: string where
  "specHeader =
     ''Page URL,Current Title Tag,Title Issue,Title Recommendation,Current Meta Description,Meta Issue,Meta Recommendation,H1 Count,H1 Content,H1 Issue,H1 Recommendation,Images Missing Alt Text,Image Recommendation''"

definition specRowLine :: "SeoDataRow \<Rightarrow> string" where
  "specRowLine row =
     doubleQuote # url row @ doubleQuote # '','' @
     doubleQuote # titleContent row @ doubleQuote # '','' @
     doubleQuote # titleIssue row @ doubleQuote # '','' @
     doubleQuote # titleSuggestion row @ doubleQuote # '','' @
     doubleQuote # metaDescription row @ doubleQuote # '','' @
     doubleQuote # metaIssue row @ doubleQuote # '','' @
     doubleQuote # metaSuggestion row @ doubleQuote # '','' @
     toString (h1Count row) @ '','' @
     doubleQuote # h1Content row @ doubleQuote # '','' @
     doubleQuote # h1Issue row @ doubleQuote # '','' @
     doubleQuote # h1Suggestion row @ doubleQuote # '','' @
     toString (imagesWithoutAlt row) @ '','' @
     doubleQuote # imageSuggestion row @ [doubleQuote]"

section \<open>Concrete pages\<close>

text \<open>
  The end-to-end example of the specification: the page
  \<open><html><head></head><body><img src="a.png"></body></html>\<close> at
  \<open>https://example.com/about-us\<close>. Its document has no title, no meta description and
  no h1, and one img with a \<open>src\<close> and no \<open>alt\<close>; the path of its URL is \<open>/about-us\<close>.
\<close>

definition exampleHtml :: string where
  "exampleHtml =
     ''<html><head></head><body><img src='' @ [CHR 0x22] @ ''a.png'' @ [CHR 0x22]
       @ ''></body></html>''"

definition exampleUrl :: string where
  "exampleUrl = ''https://example.com/about-us''"

definition emptyDoc :: document where
  "emptyDoc = \<lparr>titleElement = None, metaElement = None, h1Elements = [], images = []\<rparr>"

definition exampleDoc :: document where
  "exampleDoc = emptyDoc\<lparr>images := [\<lparr>alt = None, src = Some ''a.png''\<rparr>]\<rparr>"

text \<open>A browser that parses every page to the given document.\<close>

definition browserOf :: "document \<Rightarrow> browser" where
  "browserOf doc =
     \<lparr>parseFromString = (\<lambda>_. doc),
      pathname = (\<lambda>u. if u = exampleUrl then Some ''/about-us'' else None)\<rparr>"

text \<open>
  Pages whose title or meta description is padded with a space: a title of 29 letters
  between two spaces, a title of 60 letters followed by a space, a description of 119
  letters after a space, and one of 160 letters followed by a space.
\<close>

definition paddedShortTitle :: string where
  "paddedShortTitle = '' '' @ replicate 29 CHR ''a'' @ '' ''"

definition paddedLongTitle :: string where
  "paddedLongTitle = replicate 60 CHR ''a'' @ '' ''"

definition titlePage :: "string \<Rightarrow> string" where
  "titlePage t = ''<html><head><title>'' @ t @ ''</title></head><body></body></html>''"

definition titleDoc :: "string \<Rightarrow> document" where
  "titleDoc t = emptyDoc\<lparr>titleElement := Some t\<rparr>"

definition paddedShortMeta :: string where
  "paddedShortMeta = '' '' @ replicate 119 CHR ''a''"

definition paddedLongMeta :: string where
  "paddedLongMeta = replicate 160 CHR ''a'' @ '' ''"

definition metaPage :: "string \<Rightarrow> string" where
  "metaPage c =
     ''<html><head><meta name='' @ [CHR 0x22] @ ''description'' @ [CHR 0x22] @ '' content=''
       @ [CHR 0x22] @ c @ [CHR 0x22] @ ''></head><body></body></html>''"

definition metaDoc :: "string \<Rightarrow> document" where
  "metaDoc c = emptyDoc\<lparr>metaElement := Some (Some c)\<rparr>"

text \<open>The analysis of the example page, and of the same page with one h1 added.\<close>

definition pageA :: PageAnalysis where
  "pageA = analyzePage (browserOf exampleDoc) exampleUrl exampleHtml"

definition pageB :: PageAnalysis where
  "pageB = analyzePage (browserOf (exampleDoc\<lparr>h1Elements := [''A'']\<rparr>)) exampleUrl exampleHtml"

text \<open>A page whose title runs over two lines, and the rows extracted from its analysis.\<close>

definition twoLineTitle :: string where
  "twoLineTitle = ''Home'' @ [CHR 0x0A] @ ''Page''"

definition twoLineRows :: "SeoDataRow list" where
  "twoLineRows =
     extractSeoData [analyzePage (browserOf (titleDoc twoLineTitle)) exampleUrl
       (titlePage twoLineTitle)]"

section \<open>The binary64 rounding\<close>

text \<open>
  \<open>exponentOf\<close> brackets a positive rational between two powers of two, and \<open>binary64\<close>
  returns a multiple of the unit in the last place that lies within half a unit of its
  argument.
\<close>

lemma pow2_powi: "pow2 k = 2 powi k"
  by (simp add: pow2_def power_int_def inverse_eq_divide power_one_over)

lemma pow2_pos: "0 < pow2 k"
  by (simp add: pow2_powi)

lemma pow2_add: "pow2 (a + b) = pow2 a * pow2 b"
  by (simp add: pow2_powi power_int_add)

lemma pow2_Suc: "pow2 (k + 1) = 2 * pow2 k"
proof -
  have "pow2 1 = 2" by (simp add: pow2_def)
  then show ?thesis by (simp add: pow2_add [of k 1])
qed

lemma pow2_nat: "pow2 (int n) = 2 ^ n"
  by (simp add: pow2_def)

lemma bitLength_bounds:
  "0 < n \<Longrightarrow> 2 ^ (bitLength n - 1) \<le> n \<and> n < 2 ^ bitLength n"
proof (induction n rule: bitLength.induct)
  case (1 n)
  show ?case
  proof (cases "n = 1")
    case True
    then show ?thesis by (simp add: bitLength.simps [of 1] bitLength.simps [of 0])
  next
    case False
    with "1.prems" have h: "0 < n div 2" by simp
    with "1.IH" "1.prems" have ih: "2 ^ (bitLength (n div 2) - 1) \<le> n div 2"
      "n div 2 < 2 ^ bitLength (n div 2)" by simp_all
    have pos: "0 < bitLength (n div 2)" using h by (simp add: bitLength.simps [of "n div 2"])
    have eq: "bitLength n = Suc (bitLength (n div 2))"
      using "1.prems" by (simp add: bitLength.simps [of n])
    from pos obtain m where m: "bitLength (n div 2) = Suc m" by (cases "bitLength (n div 2)") auto
    from ih m have "2 ^ m \<le> n div 2" "n div 2 < 2 * 2 ^ m" by simp_all
    then have "2 * 2 ^ m \<le> n" "n < 2 * (2 * 2 ^ m)" by linarith+
    then show ?thesis by (simp add: eq m)
  qed
qed

lemma roundHalfEven_near: "\<bar>of_int (roundHalfEven m) - m\<bar> \<le> 1 / 2"
proof -
  have "of_int \<lfloor>m\<rfloor> \<le> m" "m < of_int \<lfloor>m\<rfloor> + 1"
    by linarith+
  then show ?thesis
    by (auto simp: roundHalfEven_def Let_def)
qed


lemma pow2_diff: "pow2 (int a - int b) = 2 ^ a / 2 ^ b"
proof -
  have "pow2 (int a - int b) * pow2 (int b) = pow2 (int a)"
    by (simp add: pow2_add [symmetric])
  then show ?thesis by (simp add: pow2_nat field_simps)
qed

lemma exponentOf_bounds:
  assumes "0 < q"
  shows "pow2 (exponentOf q) \<le> q \<and> q < pow2 (exponentOf q + 1)"
proof -
  obtain n d where nd: "quotient_of q = (n, d)" by (cases "quotient_of q")
  then have d: "0 < d" and q: "q = of_int n / of_int d"
    by (simp_all add: quotient_of_denom_pos quotient_of_div)
  with assms have n: "0 < n" by (simp add: zero_less_divide_iff)
  define bn bd where "bn = bitLength n" and "bd = bitLength d"
  define k where "k = int bn - int bd"
  have bn: "2 ^ (bn - 1) \<le> n" "n < 2 ^ bn" and bd: "2 ^ (bd - 1) \<le> d" "d < 2 ^ bd"
    using bitLength_bounds [OF n] bitLength_bounds [OF d] by (simp_all add: bn_def bd_def)
  have bn_pos: "0 < bn" using n by (simp add: bn_def bitLength.simps [of n])
  have bd_pos: "0 < bd" using d by (simp add: bd_def bitLength.simps [of d])
  have cast_le: "(2 :: rat) ^ a \<le> of_int i" if "2 ^ a \<le> i" for a and i :: int
  proof -
    from that have "(of_int (2 ^ a) :: rat) \<le> of_int i" by (simp only: of_int_le_iff)
    then show ?thesis by simp
  qed
  have cast_less: "(of_int i :: rat) < 2 ^ a" if "i < 2 ^ a" for a and i :: int
  proof -
    from that have "(of_int i :: rat) < of_int (2 ^ a)" by (simp only: of_int_less_iff)
    then show ?thesis by simp
  qed
  note nr = cast_le [OF bn(1)] cast_less [OF bn(2)]
  note dr = cast_le [OF bd(1)] cast_less [OF bd(2)]
  have npos: "(0 :: rat) \<le> of_int n" using n by simp
  have dpos: "(0 :: rat) < of_int d" using d by simp
  have upper: "q < pow2 (k + 1)"
  proof -
    have "pow2 (k + 1) = 2 ^ bn / 2 ^ (bd - 1)"
      using bd_pos pow2_diff [of bn "bd - 1"] by (simp add: k_def of_nat_diff algebra_simps)
    moreover have "of_int n / of_int d < (2 :: rat) ^ bn / 2 ^ (bd - 1)"
      by (rule frac_less [OF npos nr(2) _ dr(1)]) simp
    ultimately show ?thesis by (simp add: q)
  qed
  have lower: "pow2 (k - 1) \<le> q"
  proof -
    have "pow2 (k - 1) = 2 ^ (bn - 1) / 2 ^ bd"
      using bn_pos pow2_diff [of "bn - 1" bd] by (simp add: k_def of_nat_diff algebra_simps)
    moreover have "(2 :: rat) ^ (bn - 1) / 2 ^ bd \<le> of_int n / of_int d"
      by (rule frac_le [OF npos nr(1) dpos]) (rule less_imp_le [OF dr(2)])
    ultimately show ?thesis by (simp add: q)
  qed
  have e: "exponentOf q = (if pow2 k \<le> q then k else k - 1)"
    by (simp add: exponentOf_def nd k_def bn_def bd_def)
  show ?thesis
  proof (cases "pow2 k \<le> q")
    case True
    with e upper show ?thesis by simp
  next
    case False
    with e lower show ?thesis by simp
  qed
qed

lemma binary64_near:
  assumes "q \<noteq> 0"
  shows "\<bar>binary64 q - q\<bar> \<le> pow2 (exponentOf \<bar>q\<bar> - 52) / 2"
proof -
  define ulp where "ulp = pow2 (exponentOf \<bar>q\<bar> - 52)"
  define r where "r = (of_int (roundHalfEven (\<bar>q\<bar> / ulp)) :: rat)"
  have ulp: "0 < ulp" by (simp add: ulp_def pow2_pos)
  have b: "binary64 q = sgn q * r * ulp"
    using assms by (simp add: binary64_def ulp_def r_def Let_def)
  have "\<bar>r - \<bar>q\<bar> / ulp\<bar> \<le> 1 / 2"
    unfolding r_def by (rule roundHalfEven_near)
  then have "\<bar>r - \<bar>q\<bar> / ulp\<bar> * ulp \<le> 1 / 2 * ulp"
    using ulp by (intro mult_right_mono) auto
  moreover have "\<bar>r - \<bar>q\<bar> / ulp\<bar> * ulp = \<bar>r * ulp - \<bar>q\<bar>\<bar>"
  proof -
    have "\<bar>r - \<bar>q\<bar> / ulp\<bar> * ulp = \<bar>(r - \<bar>q\<bar> / ulp) * ulp\<bar>"
      using ulp by (intro abs_mult_pos) simp
    also have "(r - \<bar>q\<bar> / ulp) * ulp = r * ulp - \<bar>q\<bar>"
      using ulp by (simp add: left_diff_distrib)
    finally show ?thesis .
  qed
  moreover have "\<bar>sgn q * r * ulp - q\<bar> = \<bar>r * ulp - \<bar>q\<bar>\<bar>"
    using assms by (cases "0 < q") (auto simp: sgn_if abs_if)
  ultimately have "\<bar>binary64 q - q\<bar> \<le> 1 / 2 * ulp" by (simp only: b)
  then show ?thesis by (simp add: ulp_def)
qed

lemma binary64_grid:
  "\<exists>m::int. binary64 q = of_int m * pow2 (exponentOf \<bar>q\<bar> - 52)"
proof (cases "q = 0")
  case True
  then have "binary64 q = of_int 0 * pow2 (exponentOf \<bar>q\<bar> - 52)" by (simp add: binary64_def)
  then show ?thesis by blast
next
  case False
  then have "binary64 q =
      of_int ((if 0 < q then 1 else - 1) * roundHalfEven (\<bar>q\<bar> / pow2 (exponentOf \<bar>q\<bar> - 52)))
        * pow2 (exponentOf \<bar>q\<bar> - 52)"
    by (simp add: binary64_def Let_def sgn_if)
  then show ?thesis by blast
qed

section \<open>Properties of the checks\<close>

subsection \<open>Each check appends its issues and deducts its penalty\<close>

lemma all_dropWhile: "(\<forall>x \<in> set (dropWhile P xs). P x) \<longleftrightarrow> (\<forall>x \<in> set xs. P x)"
  by (induction xs) auto

lemma trim_empty_iff: "trim s = [] \<longleftrightarrow> (\<forall>c \<in> set s. isWhiteSpace c)"
  by (simp add: trim_def dropWhile_eq_Nil_conv all_dropWhile)

lemma checkTitle_step:
  "checkTitle doc (is, sc) = (is @ issuesOf checkTitle doc, sc - penaltyOf checkTitle doc)"
  by (simp add: checkTitle_def issuesOf_def penaltyOf_def Let_def split: option.splits)

lemma checkMetaDescription_step:
  "checkMetaDescription doc (is, sc) =
     (is @ issuesOf checkMetaDescription doc, sc - penaltyOf checkMetaDescription doc)"
  by (simp add: checkMetaDescription_def issuesOf_def penaltyOf_def Let_def split: option.splits)

lemma checkH1_step:
  "checkH1 doc (is, sc) = (is @ issuesOf checkH1 doc, sc - penaltyOf checkH1 doc)"
  by (simp add: checkH1_def issuesOf_def penaltyOf_def)

lemma checkImages_step:
  "checkImages doc (is, sc) = (is @ issuesOf checkImages doc, sc - penaltyOf checkImages doc)"
  by (simp add: checkImages_def issuesOf_def penaltyOf_def Let_def)

lemma penalty_title_range: "penaltyOf checkTitle doc \<in> {0, 5, 10, 20}"
  by (simp add: checkTitle_def penaltyOf_def Let_def split: option.splits)

lemma penalty_meta_range: "penaltyOf checkMetaDescription doc \<in> {0, 5, 10, 20}"
  by (simp add: checkMetaDescription_def penaltyOf_def Let_def split: option.splits)

lemma penalty_h1_range: "penaltyOf checkH1 doc \<in> {0, 10, 15}"
  by (simp add: checkH1_def penaltyOf_def)

lemma penalty_images_range: "0 \<le> penaltyOf checkImages doc \<and> penaltyOf checkImages doc \<le> 15"
  by (simp add: checkImages_def penaltyOf_def Let_def)

lemma analyzePage_progress:
  "checkImages doc (checkH1 doc (checkMetaDescription doc (checkTitle doc ([], 100)))) =
     (issuesOf checkTitle doc @ issuesOf checkMetaDescription doc @ issuesOf checkH1 doc
        @ issuesOf checkImages doc,
      100 - penaltyOf checkTitle doc - penaltyOf checkMetaDescription doc - penaltyOf checkH1 doc
        - penaltyOf checkImages doc)"
  by (simp add: checkTitle_step checkMetaDescription_step checkH1_step checkImages_step)

lemma analyzePage_issues:
  "issues (analyzePage b u html) =
     issuesOf checkTitle (parseFromString b html)
       @ issuesOf checkMetaDescription (parseFromString b html)
       @ issuesOf checkH1 (parseFromString b html)
       @ issuesOf checkImages (parseFromString b html)"
  by (simp add: analyzePage_def analyzePage_progress Let_def)

lemma analyzePage_score_clamped:
  "score (analyzePage b u html) =
     max 0 (100 - penaltyOf checkTitle (parseFromString b html)
       - penaltyOf checkMetaDescription (parseFromString b html)
       - penaltyOf checkH1 (parseFromString b html)
       - penaltyOf checkImages (parseFromString b html))"
  by (simp add: analyzePage_def analyzePage_progress Let_def)

lemma analyzePage_score:
  "score (analyzePage b u html) =
     100 - penaltyOf checkTitle (parseFromString b html)
       - penaltyOf checkMetaDescription (parseFromString b html)
       - penaltyOf checkH1 (parseFromString b html)
       - penaltyOf checkImages (parseFromString b html)"
proof -
  let ?doc = "parseFromString b html"
  have "penaltyOf checkTitle ?doc \<le> 20" using penalty_title_range [of ?doc] by auto
  moreover have "penaltyOf checkMetaDescription ?doc \<le> 20" using penalty_meta_range [of ?doc] by auto
  moreover have "penaltyOf checkH1 ?doc \<le> 15" using penalty_h1_range [of ?doc] by auto
  moreover have "penaltyOf checkImages ?doc \<le> 15" using penalty_images_range [of ?doc] by auto
  ultimately show ?thesis
    by (simp add: analyzePage_score_clamped)
qed

lemma category_issuesOf_title: "issue \<in> set (issuesOf checkTitle doc) \<Longrightarrow> category issue = Title"
  by (auto simp: checkTitle_def issuesOf_def Let_def split: option.splits if_splits)

lemma category_issuesOf_meta:
  "issue \<in> set (issuesOf checkMetaDescription doc) \<Longrightarrow> category issue = MetaDescription"
  by (auto simp: checkMetaDescription_def issuesOf_def Let_def split: option.splits if_splits)

lemma category_issuesOf_h1: "issue \<in> set (issuesOf checkH1 doc) \<Longrightarrow> category issue = H1"
  by (auto simp: checkH1_def issuesOf_def split: if_splits)

lemma category_issuesOf_images: "issue \<in> set (issuesOf checkImages doc) \<Longrightarrow> category issue = Images"
  by (auto simp: checkImages_def issuesOf_def Let_def split: if_splits)

lemma filter_category_title:
  "filter (\<lambda>issue. category issue = c) (issuesOf checkTitle doc) =
     (if c = Title then issuesOf checkTitle doc else [])"
  by (auto simp: category_issuesOf_title intro!: filter_True filter_False)

lemma filter_category_meta:
  "filter (\<lambda>issue. category issue = c) (issuesOf checkMetaDescription doc) =
     (if c = MetaDescription then issuesOf checkMetaDescription doc else [])"
  by (auto simp: category_issuesOf_meta intro!: filter_True filter_False)

lemma filter_category_h1:
  "filter (\<lambda>issue. category issue = c) (issuesOf checkH1 doc) =
     (if c = H1 then issuesOf checkH1 doc else [])"
  by (auto simp: category_issuesOf_h1 intro!: filter_True filter_False)

lemma filter_category_images:
  "filter (\<lambda>issue. category issue = c) (issuesOf checkImages doc) =
     (if c = Images then issuesOf checkImages doc else [])"
  by (auto simp: category_issuesOf_images intro!: filter_True filter_False)

lemmas filter_category =
  filter_category_title filter_category_meta filter_category_h1 filter_category_images

lemma issuesIn_Title:
  "issuesIn Title (analyzePage b u html) = issuesOf checkTitle (parseFromString b html)"
  by (simp add: issuesIn_def analyzePage_issues filter_category)

lemma issuesIn_MetaDescription:
  "issuesIn MetaDescription (analyzePage b u html) =
     issuesOf checkMetaDescription (parseFromString b html)"
  by (simp add: issuesIn_def analyzePage_issues filter_category)

lemma issuesIn_H1:
  "issuesIn H1 (analyzePage b u html) = issuesOf checkH1 (parseFromString b html)"
  by (simp add: issuesIn_def analyzePage_issues filter_category)

lemma issuesIn_Images:
  "issuesIn Images (analyzePage b u html) = issuesOf checkImages (parseFromString b html)"
  by (simp add: issuesIn_def analyzePage_issues filter_category)

lemma toString_small:
  "toString (Suc 0) = ''1''" "toString (Suc (Suc 0)) = ''2''" "toString (Suc (Suc (Suc 0))) = ''3''"
  by code_simp+

subsection \<open>The h1 check\<close>

text \<open>
  C4. With \<open>k\<close> the number of h1 elements: \<open>k = 0\<close> records the error
  \<open>Missing H1 tag\<close> and deducts 15; \<open>k > 1\<close> records the warning
  \<open>Multiple H1 tags found\<close>, whose details hold the decimal digits of \<open>k\<close>, and
  deducts 10; \<open>k = 1\<close> records no h1 issue and deducts nothing. The deduction is the
  h1 check's share of the final score.
\<close>

theorem checkH1_spec:
  "(length (h1Elements (parseFromString b html)) = 0 \<longrightarrow>
      issuesIn H1 (analyzePage b u html) =
        [\<lparr>type = Error, category = H1, message = ''Missing H1 tag'',
          details = Some ''Every page should have exactly one H1 tag for SEO hierarchy''\<rparr>]
      \<and> penaltyOf checkH1 (parseFromString b html) = 15)
   \<and> (length (h1Elements (parseFromString b html)) > 1 \<longrightarrow>
      issuesIn H1 (analyzePage b u html) =
        [\<lparr>type = Warning, category = H1, message = ''Multiple H1 tags found'',
          details = Some (''Found '' @ toString (length (h1Elements (parseFromString b html)))
            @ '' H1 tags. Recommended: exactly 1 H1 per page'')\<rparr>]
      \<and> penaltyOf checkH1 (parseFromString b html) = 10)
   \<and> (length (h1Elements (parseFromString b html)) = 1 \<longrightarrow>
      issuesIn H1 (analyzePage b u html) = []
      \<and> penaltyOf checkH1 (parseFromString b html) = 0)
   \<and> score (analyzePage b u html) =
        100 - penaltyOf checkTitle (parseFromString b html)
          - penaltyOf checkMetaDescription (parseFromString b html)
          - penaltyOf checkImages (parseFromString b html)
          - penaltyOf checkH1 (parseFromString b html)"
  by (simp add: issuesIn_H1 analyzePage_score issuesOf_def penaltyOf_def checkH1_def)

theorem checkH1_spec_witness:
  "issuesIn H1 (analyzePage (browserOf exampleDoc) exampleUrl exampleHtml) =
     [\<lparr>type = Error, category = H1, message = ''Missing H1 tag'',
       details = Some ''Every page should have exactly one H1 tag for SEO hierarchy''\<rparr>]
   \<and> issuesIn H1 (analyzePage (browserOf (exampleDoc\<lparr>h1Elements := [''A'', ''B'', ''C'']\<rparr>))
        exampleUrl exampleHtml) =
     [\<lparr>type = Warning, category = H1, message = ''Multiple H1 tags found'',
       details = Some ''Found 3 H1 tags. Recommended: exactly 1 H1 per page''\<rparr>]
   \<and> issuesIn H1 (analyzePage (browserOf (exampleDoc\<lparr>h1Elements := [''A'']\<rparr>))
        exampleUrl exampleHtml) = []
   \<and> score (analyzePage (browserOf exampleDoc) exampleUrl exampleHtml) = 43
   \<and> score (analyzePage (browserOf (exampleDoc\<lparr>h1Elements := [''A'', ''B'', ''C'']\<rparr>))
        exampleUrl exampleHtml) = 48
   \<and> score (analyzePage (browserOf (exampleDoc\<lparr>h1Elements := [''A'']\<rparr>))
        exampleUrl exampleHtml) = 58"
  using checkH1_spec [of "browserOf exampleDoc" exampleHtml exampleUrl]
    checkH1_spec [of "browserOf (exampleDoc\<lparr>h1Elements := [''A'', ''B'', ''C'']\<rparr>)" exampleHtml exampleUrl]
    checkH1_spec [of "browserOf (exampleDoc\<lparr>h1Elements := [''A'']\<rparr>)" exampleHtml exampleUrl]
  by (simp add: browserOf_def exampleDoc_def emptyDoc_def penaltyOf_def checkTitle_def checkH1_def
      checkMetaDescription_def checkImages_def collectImagesWithoutAlt_def lacksAlt_def
      toString_small)

subsection \<open>The image check\<close>

text \<open>
  C5. An img lacks a usable alt exactly when the attribute is absent or consists of white
  space only (so \<open>alt=""\<close> counts and \<open>alt="x"\<close> does not). The images collected in
  \<open>seoDetails\<close> are these, in document order, each with its \<open>src\<close> (empty when absent)
  and its \<open>alt\<close>. With \<open>N\<close> their number: \<open>N > 0\<close> records exactly one images issue,
  the warning \<open>N images without alt attributes\<close>; the check deducts \<open>min (N * 2) 15\<close>,
  which is its share of the final score.
\<close>

theorem checkImages_spec:
  "(lacksAlt img \<longleftrightarrow> (case alt img of None \<Rightarrow> True | Some a \<Rightarrow> \<forall>c \<in> set a. isWhiteSpace c))
   \<and> lacksAlt \<lparr>alt = Some [], src = s\<rparr>
   \<and> \<not> lacksAlt \<lparr>alt = Some ''x'', src = s\<rparr>
   \<and> SeoDetails.imagesWithoutAlt (seoDetails (analyzePage b u html)) =
       map (\<lambda>img. (case src img of None \<Rightarrow> [] | Some s \<Rightarrow> s, alt img))
         (filter lacksAlt (images (parseFromString b html)))
   \<and> (length (filter lacksAlt (images (parseFromString b html))) > 0 \<longrightarrow>
        issuesIn Images (analyzePage b u html) =
          [\<lparr>type = Warning, category = Images,
            message = toString (length (filter lacksAlt (images (parseFromString b html))))
              @ '' images without alt attributes'',
            details = Some ''Alt attributes improve accessibility and help search engines understand image content''\<rparr>])
   \<and> (length (filter lacksAlt (images (parseFromString b html))) = 0 \<longrightarrow>
        issuesIn Images (analyzePage b u html) = [])
   \<and> penaltyOf checkImages (parseFromString b html) =
        min (int (length (filter lacksAlt (images (parseFromString b html)))) * 2) 15
   \<and> score (analyzePage b u html) =
        100 - penaltyOf checkTitle (parseFromString b html)
          - penaltyOf checkMetaDescription (parseFromString b html)
          - penaltyOf checkH1 (parseFromString b html)
          - penaltyOf checkImages (parseFromString b html)"
proof -
  have a: "lacksAlt img \<longleftrightarrow> (case alt img of None \<Rightarrow> True | Some a \<Rightarrow> \<forall>c \<in> set a. isWhiteSpace c)"
    by (cases "alt img") (auto simp: lacksAlt_def trim_empty_iff)
  have b: "lacksAlt \<lparr>alt = Some [], src = s\<rparr>"
    by (simp add: lacksAlt_def)
  have c: "\<not> lacksAlt \<lparr>alt = Some ''x'', src = s\<rparr>"
    by (simp add: lacksAlt_def trim_def isWhiteSpace_def)
  have orElse_case: "orElse x [] = (case x of None \<Rightarrow> [] | Some s \<Rightarrow> s)" for x
    by (cases x) auto
  have d: "SeoDetails.imagesWithoutAlt (seoDetails (analyzePage b u html)) =
       map (\<lambda>img. (case src img of None \<Rightarrow> [] | Some s \<Rightarrow> s, alt img))
         (filter lacksAlt (images (parseFromString b html)))"
    by (simp add: analyzePage_def Let_def collectImagesWithoutAlt_def orElse_case
        split: prod.splits)
  show ?thesis
    apply (intro conjI)
           apply (rule a)
          apply (rule b)
         apply (rule c)
        apply (rule d)
       apply (simp add: issuesIn_Images issuesOf_def checkImages_def collectImagesWithoutAlt_def Let_def)
      apply (simp add: issuesIn_Images issuesOf_def checkImages_def collectImagesWithoutAlt_def Let_def)
     apply (simp add: penaltyOf_def checkImages_def collectImagesWithoutAlt_def Let_def)
    apply (rule analyzePage_score)
    done
qed

theorem checkImages_spec_witness:
  "length (filter lacksAlt (images (parseFromString (browserOf exampleDoc) exampleHtml))) > 0
   \<and> map message (issuesIn Images (analyzePage (browserOf exampleDoc) exampleUrl exampleHtml)) =
       [''1 images without alt attributes'']
   \<and> penaltyOf checkImages exampleDoc = 2
   \<and> length (filter lacksAlt (images (parseFromString (browserOf emptyDoc) exampleHtml))) = 0
   \<and> issuesIn Images (analyzePage (browserOf emptyDoc) exampleUrl exampleHtml) = []"
  using checkImages_spec [where b = "browserOf exampleDoc" and u = exampleUrl and html = exampleHtml]
    checkImages_spec [where b = "browserOf emptyDoc" and u = exampleUrl and html = exampleHtml]
  by (simp add: browserOf_def exampleDoc_def emptyDoc_def lacksAlt_def toString_small)

subsection \<open>The title and meta description checks measure the untrimmed text\<close>

text \<open>
  Both checks trim the text to decide whether it is missing, and then compare the length of
  the text as it stands, white space at both ends included.
\<close>

lemma penaltyOf_checkTitle:
  "penaltyOf checkTitle doc =
     (case titleElement doc of
        None \<Rightarrow> 20
      | Some t \<Rightarrow>
          if trim t = [] then 20 else if 60 < length t then 10 else if length t < 30 then 5 else 0)"
  by (simp add: penaltyOf_def checkTitle_def Let_def split: option.splits)

lemma penaltyOf_checkMetaDescription:
  "penaltyOf checkMetaDescription doc =
     (case metaElement doc of
        None \<Rightarrow> 20
      | Some None \<Rightarrow> 20
      | Some (Some c) \<Rightarrow>
          if trim c = [] then 20 else if 160 < length c then 10 else if length c < 120 then 5 else 0)"
  by (cases "metaElement doc"; cases "the (metaElement doc)")
     (auto simp: penaltyOf_def checkMetaDescription_def Let_def)

text \<open>
  C2. The claim measures the trimmed title. The code does not: a title of 29 letters between
  two spaces has trimmed length 29, yet \<open>analyzePage\<close> records no title issue and deducts
  nothing, while \<open>extractSeoData\<close> labels the same analysis \<open>Too Short\<close>; a title of 60
  letters followed by a space has trimmed length 60, yet \<open>analyzePage\<close> records
  \<open>Title tag too long\<close> and deducts 10, while \<open>extractSeoData\<close> labels it \<open>Good\<close>.
\<close>

theorem checkTitle_padded:
  "length (trim paddedShortTitle) = 29
   \<and> issuesIn Title (analyzePage (browserOf (titleDoc paddedShortTitle)) exampleUrl
        (titlePage paddedShortTitle)) = []
   \<and> penaltyOf checkTitle (titleDoc paddedShortTitle) = 0
   \<and> titleIssue (extractRow (analyzePage (browserOf (titleDoc paddedShortTitle)) exampleUrl
        (titlePage paddedShortTitle))) = ''Too Short''
   \<and> length (trim paddedLongTitle) = 60
   \<and> map message (issuesIn Title (analyzePage (browserOf (titleDoc paddedLongTitle)) exampleUrl
        (titlePage paddedLongTitle))) = [''Title tag too long'']
   \<and> penaltyOf checkTitle (titleDoc paddedLongTitle) = 10
   \<and> titleIssue (extractRow (analyzePage (browserOf (titleDoc paddedLongTitle)) exampleUrl
        (titlePage paddedLongTitle))) = ''Good''"
  by code_simp

text \<open>
  C3. The claim measures the trimmed description. The code does not: a description of 119
  letters after a space has trimmed length 119, yet \<open>analyzePage\<close> records no issue and
  deducts nothing, while \<open>extractSeoData\<close> labels the same analysis \<open>Too Short\<close>; one of
  160 letters followed by a space has trimmed length 160, yet \<open>analyzePage\<close> records
  \<open>Meta description too long\<close> and deducts 10, while \<open>extractSeoData\<close> labels it
  \<open>Good\<close>.
\<close>

theorem checkMetaDescription_padded:
  "length (trim paddedShortMeta) = 119
   \<and> issuesIn MetaDescription (analyzePage (browserOf (metaDoc paddedShortMeta)) exampleUrl
        (metaPage paddedShortMeta)) = []
   \<and> penaltyOf checkMetaDescription (metaDoc paddedShortMeta) = 0
   \<and> metaIssue (extractRow (analyzePage (browserOf (metaDoc paddedShortMeta)) exampleUrl
        (metaPage paddedShortMeta))) = ''Too Short''
   \<and> length (trim paddedLongMeta) = 160
   \<and> map message (issuesIn MetaDescription (analyzePage (browserOf (metaDoc paddedLongMeta))
        exampleUrl (metaPage paddedLongMeta))) = [''Meta description too long'']
   \<and> penaltyOf checkMetaDescription (metaDoc paddedLongMeta) = 10
   \<and> metaIssue (extractRow (analyzePage (browserOf (metaDoc paddedLongMeta)) exampleUrl
        (metaPage paddedLongMeta))) = ''Good''"
  by code_simp

subsection \<open>The score\<close>

text \<open>
  The score always lies between 0 and 100, and on an unpadded document it is the score of
  the specification: 100 less the penalties of the four checks, not below 0.
\<close>

lemma lacksAlt_spec: "lacksAlt = specLacksAlt"
  by (rule ext) (auto simp: lacksAlt_def specLacksAlt_def trim_def split: option.splits)

lemma penaltyOf_checkH1: "penaltyOf checkH1 doc = specH1Penalty doc"
  by (simp add: penaltyOf_def checkH1_def specH1Penalty_def)

lemma penaltyOf_checkImages: "penaltyOf checkImages doc = specImagesPenalty doc"
  by (simp add: penaltyOf_def checkImages_def collectImagesWithoutAlt_def specImagesPenalty_def
      lacksAlt_spec Let_def)

lemma analyzePage_score_range:
  "0 \<le> score (analyzePage b u html) \<and> score (analyzePage b u html) \<le> 100"
proof -
  let ?doc = "parseFromString b html"
  have "0 \<le> penaltyOf checkTitle ?doc" using penalty_title_range [of ?doc] by auto
  moreover have "0 \<le> penaltyOf checkMetaDescription ?doc"
    using penalty_meta_range [of ?doc] by auto
  moreover have "0 \<le> penaltyOf checkH1 ?doc" using penalty_h1_range [of ?doc] by auto
  moreover have "0 \<le> penaltyOf checkImages ?doc" using penalty_images_range [of ?doc] by auto
  ultimately show ?thesis by (simp add: analyzePage_score_clamped)
qed

lemma analyzePage_score_unpadded:
  assumes "unpadded (parseFromString b html)"
  shows "score (analyzePage b u html) = specScore (parseFromString b html)"
proof -
  let ?doc = "parseFromString b html"
  have t: "penaltyOf checkTitle ?doc = specTitlePenalty ?doc"
    using assms
    by (auto simp: penaltyOf_checkTitle specTitlePenalty_def unpadded_def Let_def
        split: option.splits)
  have m: "penaltyOf checkMetaDescription ?doc = specMetaPenalty ?doc"
    using assms
    by (auto simp: penaltyOf_checkMetaDescription specMetaPenalty_def unpadded_def Let_def
        split: option.splits)
  show ?thesis
    by (simp add: analyzePage_score_clamped specScore_def t m penaltyOf_checkH1
        penaltyOf_checkImages algebra_simps)
qed

text \<open>
  C1. The claim takes the score to be 100 less the penalties of the four checks of the
  specification. On a padded title or meta description the code deducts something else:
  for the title of 29 letters between two spaces, and for the description of 119 letters
  after a space, the score is 65 where the specification gives 60; for the title of 60
  letters followed by a space, and for the description of 160 letters followed by a space,
  it is 55 where the specification gives 65. On the example page both give 43.
\<close>

theorem analyzePage_score_padded:
  "score (analyzePage (browserOf (titleDoc paddedShortTitle)) exampleUrl
      (titlePage paddedShortTitle)) = 65
   \<and> specScore (titleDoc paddedShortTitle) = 60
   \<and> score (analyzePage (browserOf (titleDoc paddedLongTitle)) exampleUrl
      (titlePage paddedLongTitle)) = 55
   \<and> specScore (titleDoc paddedLongTitle) = 65
   \<and> score (analyzePage (browserOf (metaDoc paddedShortMeta)) exampleUrl
      (metaPage paddedShortMeta)) = 65
   \<and> specScore (metaDoc paddedShortMeta) = 60
   \<and> score (analyzePage (browserOf (metaDoc paddedLongMeta)) exampleUrl
      (metaPage paddedLongMeta)) = 55
   \<and> specScore (metaDoc paddedLongMeta) = 65
   \<and> score (analyzePage (browserOf exampleDoc) exampleUrl exampleHtml) = 43
   \<and> specScore exampleDoc = 43"
  by code_simp

section \<open>The display title\<close>

lemma split_not_Nil: "split sep s \<noteq> []"
  by (induction s) (auto split: list.splits)

lemma join_Cons: "ys \<noteq> [] \<Longrightarrow> join sep (x # ys) = x @ sep @ join sep ys"
  by (cases ys) auto

lemma join_Cons_Cons: "join sep ((c # x) # ys) = c # join sep (x # ys)"
  by (cases ys) auto

lemma join_Nil_Cons: "ys \<noteq> [] \<Longrightarrow> join sep ([] # ys) = sep @ join sep ys"
  by (cases ys) auto

lemma join_capitalize_split:
  "split CHR '' '' s = w # ws \<Longrightarrow>
     join '' '' (capitalize w # map capitalize ws) = capitalizeWords True s
     \<and> join '' '' (w # map capitalize ws) = capitalizeWords False s"
proof (induction s arbitrary: w ws)
  case Nil
  then show ?case by simp
next
  case (Cons c cs)
  obtain v vs where vs: "split CHR '' '' cs = v # vs"
    using split_not_Nil [of "CHR '' ''" cs] by (cases "split CHR '' '' cs") auto
  note IH = Cons.IH [OF vs]
  show ?case
  proof (cases "c = CHR '' ''")
    case True
    with Cons.prems vs have "w = []" "ws = v # vs" by auto
    with True IH show ?thesis by (simp add: join_Nil_Cons del: join.simps)
  next
    case False
    with Cons.prems vs have "w = c # v" "ws = vs" by auto
    with False IH show ?thesis by (simp add: join_Cons_Cons del: join.simps)
  qed
qed

lemma join_map_capitalize:
  "join '' '' (map capitalize (split CHR '' '' s)) = capitalizeWords True s"
proof -
  obtain w ws where "split CHR '' '' s = w # ws"
    using split_not_Nil [of "CHR '' ''" s] by (cases "split CHR '' '' s") auto
  then show ?thesis using join_capitalize_split [of s w ws] by simp
qed

lemma replaceAll_twice:
  "replaceAll CHR ''_'' CHR '' '' (replaceAll CHR ''-'' CHR '' '' s) =
     map (\<lambda>c. if c = CHR ''-'' \<or> c = CHR ''_'' then CHR '' '' else c) s"
  by (simp add: replaceAll_def)

lemma titleFromUrl_spec: "titleFromUrl b u = specUrlTitle (pathname b u)"
proof (cases "pathname b u")
  case None
  then show ?thesis by (simp add: titleFromUrl_def specUrlTitle_def)
next
  case (Some p)
  let ?parts = "filter (\<lambda>part. length part > 0) (split CHR ''/'' p)"
  have parts: "filter (\<lambda>segment. segment \<noteq> []) (split CHR ''/'' p) = ?parts"
    by (rule filter_cong) auto
  show ?thesis
  proof (cases "?parts = []")
    case True
    with Some parts show ?thesis by (simp add: titleFromUrl_def specUrlTitle_def)
  next
    case False
    then obtain seg rest where r: "rev ?parts = seg # rest"
      by (cases "rev ?parts") auto
    then have "last ?parts = seg"
      using False by (metis last_rev list.sel(1) rev_rev_ident hd_rev)
    with Some parts r False show ?thesis
      by (simp add: titleFromUrl_def specUrlTitle_def Let_def join_map_capitalize
          replaceAll_twice del: rev_filter)
  qed
qed

text \<open>
  C6. The title of the analysis is the fallback chain of the specification: the trimmed
  title text if non-empty, else the trimmed text of the first h1 if longer than 3, else the
  last non-empty path segment with \<open>-\<close> and \<open>_\<close> as spaces and each word capitalized,
  else \<open>No title\<close> (also when the URL does not parse or has no path segment). A page
  without title and h1 at \<open>https://example.com/about-us\<close> is titled \<open>About Us\<close>.
\<close>

theorem pageTitle_spec:
  "title (analyzePage b u html) = specTitle b u (parseFromString b html)
   \<and> (titleElement (parseFromString b html) = None \<and> h1Elements (parseFromString b html) = []
        \<and> pathname b exampleUrl = Some ''/about-us''
      \<longrightarrow> title (analyzePage b exampleUrl html) = ''About Us'')"
proof -
  have eq: "pageTitle b u doc = specTitle b u doc" for u doc
    by (cases "titleElement doc"; cases "h1Elements doc")
       (simp_all add: pageTitle_def titleFallback_def specTitle_def titleFromUrl_spec Let_def)
  have ex: "specUrlTitle (Some ''/about-us'') = ''About Us''"
    by code_simp
  have "title (analyzePage b u html) = pageTitle b u (parseFromString b html)" for u
    by (simp add: analyzePage_def Let_def split: prod.splits)
  then show ?thesis
    by (simp add: eq specTitle_def ex)
qed

theorem pageTitle_spec_witness:
  "titleElement (parseFromString (browserOf exampleDoc) exampleHtml) = None
   \<and> h1Elements (parseFromString (browserOf exampleDoc) exampleHtml) = []
   \<and> pathname (browserOf exampleDoc) exampleUrl = Some ''/about-us''
   \<and> title (analyzePage (browserOf exampleDoc) exampleUrl exampleHtml) = ''About Us''"
  using pageTitle_spec [of "browserOf exampleDoc" exampleUrl exampleHtml, THEN conjunct2]
  by (simp add: browserOf_def exampleDoc_def emptyDoc_def)

section \<open>The summary\<close>

lemma foldl_plus: "foldl (\<lambda>sum x. sum + f x) a xs = a + sum_list (map f xs)"
  for a :: "'a :: monoid_add"
  by (induction xs arbitrary: a) (auto simp: add.assoc)

lemma foldl_countIssue:
  "foldl countIssue (byType, byCategory) is =
     (\<lambda>t. byType t + length (filter (\<lambda>i. type i = t) is),
      \<lambda>c. byCategory c + length (filter (\<lambda>i. category i = c) is))"
  by (induction "is" arbitrary: byType byCategory) (auto simp: countIssue_def fun_eq_iff)

lemma foldl_countPage:
  "foldl countPage (byType, byCategory) pages =
     (\<lambda>t. byType t + length (filter (\<lambda>i. type i = t) (concat (map issues pages))),
      \<lambda>c. byCategory c + length (filter (\<lambda>i. category i = c) (concat (map issues pages))))"
  by (induction pages arbitrary: byType byCategory)
     (auto simp: countPage_def foldl_countIssue fun_eq_iff)

lemma mathRound_nearest:
  "\<exists>n::int. mathRound (Num q) = Num (of_int n) \<and> of_int n - 1 / 2 \<le> q \<and> q < of_int n + 1 / 2"
proof (intro exI conjI)
  show "mathRound (Num q) = Num (of_int \<lfloor>q + 1 / 2\<rfloor>)" by simp
  show "of_int \<lfloor>q + 1 / 2\<rfloor> - 1 / 2 \<le> q"
    using of_int_floor_le [of "q + 1 / 2"] by linarith
  show "q < of_int \<lfloor>q + 1 / 2\<rfloor> + 1 / 2"
    using floor_correct [of "q + 1 / 2"] by linarith
qed

lemma sortWith_entries_ranked:
  "sorted_wrt ranksBefore (sortWith (\<lambda>(_, a) (_, b). int b - int a) (entries f))"
  by (auto simp: sortWith_def entries_def ranksBefore_def)

lemma sortWith_entries_set:
  "set (sortWith (\<lambda>(_, a) (_, b). int b - int a) (entries f)) = set (entries f)
   \<and> length (sortWith (\<lambda>(_, a) (_, b). int b - int a) (entries f)) = 4"
  by (auto simp: sortWith_def entries_def)

lemma UNIV_issue_category: "UNIV = {Title, MetaDescription, H1, Images}"
  using issue_category.exhaust by auto

text \<open>
  C7. For a non-empty list of analyses, \<open>generateSummary\<close> returns the number of pages,
  the sum of the pages' issue counts, the mean score rounded to the nearest integer with
  ties upwards, the number of issues of each type and of each category over all pages, and
  as top issues the first three of the four categories ranked by count, larger first, equal
  counts in enumeration order.
\<close>

theorem generateSummary_spec:
  assumes "analyses \<noteq> []"
  shows "totalPages (generateSummary analyses) = length analyses
   \<and> totalIssues (generateSummary analyses) =
        sum_list (map (\<lambda>page. length (issues page)) analyses)
   \<and> (\<exists>n::int. averageScore (generateSummary analyses) = Num (of_int n)
        \<and> of_int n - 1 / 2
              \<le> (of_int (sum_list (map score analyses)) :: rat) / of_nat (length analyses)
        \<and> (of_int (sum_list (map score analyses)) :: rat) / of_nat (length analyses)
              < of_int n + 1 / 2)
   \<and> (\<forall>t. issuesByType (generateSummary analyses) t =
        length (filter (\<lambda>issue. type issue = t) (concat (map issues analyses))))
   \<and> (\<forall>c. issuesByCategory (generateSummary analyses) c =
        length (filter (\<lambda>issue. category issue = c) (concat (map issues analyses))))
   \<and> (\<exists>ranking. topIssues (generateSummary analyses) = take 3 ranking
        \<and> length ranking = 4
        \<and> set ranking = (\<lambda>c. (c, issuesByCategory (generateSummary analyses) c)) ` UNIV
        \<and> sorted_wrt ranksBefore ranking)"
proof -
  let ?s = "generateSummary analyses"
  let ?mean = "(of_int (sum_list (map score analyses)) :: rat) / of_nat (length analyses)"
  let ?cmp = "\<lambda>(_ :: issue_category, a) (_ :: issue_category, b). int b - int a"
  have pages: "totalPages ?s = length analyses"
    by (simp add: generateSummary_def Let_def split: prod.splits)
  have total: "totalIssues ?s = sum_list (map (\<lambda>page. length (issues page)) analyses)"
    by (simp add: generateSummary_def Let_def foldl_plus split: prod.splits)
  have "averageScore ?s = mathRound (Num ?mean)"
    using assms by (simp add: generateSummary_def Let_def foldl_plus jsDivide_def split: prod.splits)
  then have avg: "\<exists>n::int. averageScore ?s = Num (of_int n)
      \<and> of_int n - 1 / 2 \<le> ?mean \<and> ?mean < of_int n + 1 / 2"
    using mathRound_nearest [of ?mean] by simp
  have byType: "issuesByType ?s t =
      length (filter (\<lambda>issue. type issue = t) (concat (map issues analyses)))" for t
    by (simp add: generateSummary_def Let_def foldl_countPage)
  have byCategory: "issuesByCategory ?s c =
      length (filter (\<lambda>issue. category issue = c) (concat (map issues analyses)))" for c
    by (simp add: generateSummary_def Let_def foldl_countPage)
  let ?ranking = "sortWith ?cmp (entries (issuesByCategory ?s))"
  have top: "topIssues ?s = take 3 ?ranking"
    by (simp add: generateSummary_def Let_def foldl_countPage)
  have "set (entries f) = (\<lambda>c. (c, f c)) ` UNIV" for f :: "issue_category \<Rightarrow> nat"
    by (auto simp: entries_def UNIV_issue_category)
  then have ranking: "length ?ranking = 4
      \<and> set ?ranking = (\<lambda>c. (c, issuesByCategory ?s c)) ` UNIV
      \<and> sorted_wrt ranksBefore ?ranking"
    using sortWith_entries_set [of "issuesByCategory ?s"]
      sortWith_entries_ranked [of "issuesByCategory ?s"] by simp
  from top ranking have "\<exists>ranking. topIssues ?s = take 3 ranking
      \<and> length ranking = 4
      \<and> set ranking = (\<lambda>c. (c, issuesByCategory ?s c)) ` UNIV
      \<and> sorted_wrt ranksBefore ranking"
    by blast
  with pages total avg byType byCategory show ?thesis by (intro conjI allI) assumption+
qed

lemma pages_example:
  "score pageA = 43" "score pageB = 58" "length (issues pageA) = 4" "length (issues pageB) = 3"
  by (simp_all add: pageA_def pageB_def analyzePage_score analyzePage_issues penaltyOf_def
      issuesOf_def browserOf_def exampleDoc_def emptyDoc_def checkTitle_def
      checkMetaDescription_def checkH1_def checkImages_def collectImagesWithoutAlt_def
      lacksAlt_def)

theorem generateSummary_spec_witness:
  "[pageA, pageB] \<noteq> []
   \<and> totalPages (generateSummary [pageA, pageB]) = 2
   \<and> totalIssues (generateSummary [pageA, pageB]) = 7
   \<and> averageScore (generateSummary [pageA, pageB]) = Num 51"
proof -
  have ne: "[pageA, pageB] \<noteq> []" by simp
  note spec = generateSummary_spec [OF ne]
  from spec have pages: "totalPages (generateSummary [pageA, pageB]) = 2"
    by (simp add: numeral_2_eq_2)
  from spec have total: "totalIssues (generateSummary [pageA, pageB]) = 7"
    by (simp add: pages_example)
  from spec obtain n :: int
    where n: "averageScore (generateSummary [pageA, pageB]) = Num (of_int n)"
      and lo: "of_int n - 1 / 2 \<le> (of_int (sum_list (map score [pageA, pageB])) :: rat)
                 / of_nat (length [pageA, pageB])"
      and hi: "(of_int (sum_list (map score [pageA, pageB])) :: rat)
                 / of_nat (length [pageA, pageB]) < of_int n + 1 / 2"
    by blast
  from lo have "(of_int n :: rat) \<le> 51" by (simp add: pages_example)
  moreover from hi have "(50 :: rat) < of_int n" by (simp add: pages_example)
  ultimately have "n \<le> 51" "50 < n" by linarith+
  then have "n = 51" by simp
  with n ne pages total show ?thesis by simp
qed

text \<open>
  The percentages of \<open>generateSummaryReport\<close> are computed in binary64: 23 pages of 40
  give \<open>0.575\<close>, whose product with 100 lies just below \<open>57.5\<close>, so the percentage is 57.
\<close>

lemma percentageOf_examples:
  "percentageOf 23 40 = Num 57" "percentageOf 1 3 = Num 33" "percentageOf 1 2 = Num 50"
  "percentageOf 7 8 = Num 88" "percentageOf 0 0 = NaN"
  by code_simp+

text \<open>
  C8, as the claim states it, fails: for the empty list the average score is not an integer.
\<close>

theorem generateSummary_empty_counterexample:
  "\<not> isInteger (averageScore (generateSummary []))"
  by (simp add: generateSummary_def jsDivide_def)

text \<open>
  C8, amended. For the empty list \<open>generateSummary\<close> returns without failing: zero pages,
  zero issues, every counter zero, the first three categories with count 0 as top issues,
  and \<open>NaN\<close>, the quotient \<open>0 / 0\<close>, as average score. \<open>generateSummaryReport\<close> on no
  rows likewise returns zero counts and \<open>NaN\<close> for every percentage and for the average.
\<close>

theorem generateSummary_empty:
  "totalPages (generateSummary []) = 0
   \<and> totalIssues (generateSummary []) = 0
   \<and> averageScore (generateSummary []) = NaN
   \<and> issuesByType (generateSummary []) = (\<lambda>_. 0)
   \<and> issuesByCategory (generateSummary []) = (\<lambda>_. 0)
   \<and> topIssues (generateSummary []) = [(Title, 0), (MetaDescription, 0), (H1, 0)]
   \<and> generateSummaryReport [] =
       \<lparr>reportTotalPages = 0,
        missingTitlesCount = 0, missingTitlesPercentage = NaN,
        missingMetaDescriptionsCount = 0, missingMetaDescriptionsPercentage = NaN,
        noH1TagsCount = 0, noH1TagsPercentage = NaN,
        multipleH1TagsCount = 0, multipleH1TagsPercentage = NaN,
        imagesWithoutAltTotal = 0, imagesWithoutAltAveragePerPage = NaN\<rparr>"
  by (simp add: generateSummary_def generateSummaryReport_def percentageOf_def jsDivide_def
      sortWith_def entries_def)

section \<open>The rows and the CSV\<close>

text \<open>
  C10. Every row that \<open>extractSeoData\<close> produces has \<open>totalImages = 0\<close>, whatever the
  page contained.
\<close>

theorem extractSeoData_totalImages:
  "\<forall>row \<in> set (extractSeoData analyses). totalImages row = 0"
proof -
  have "totalImages (extractRow analysis) = 0" for analysis
    by (simp add: extractRow_def Let_def split_def)
  then show ?thesis by (simp add: extractSeoData_def)
qed

theorem extractSeoData_totalImages_witness:
  "pageA \<in> set [pageA, pageB] \<and> length (images exampleDoc) = 1
   \<and> map totalImages (extractSeoData [pageA, pageB]) = [0, 0]"
  using extractSeoData_totalImages [of "[pageA, pageB]"]
  by (simp add: extractSeoData_def exampleDoc_def)

lemma split_append_sep: "split sep (xs @ sep # ys) = split sep xs @ split sep ys"
proof (induction xs)
  case Nil
  show ?case by simp
next
  case (Cons c cs)
  obtain w ws where "split sep cs = w # ws"
    using split_not_Nil [of sep cs] by (cases "split sep cs") auto
  with Cons show ?case by simp
qed

lemma split_no_sep: "sep \<notin> set s \<Longrightarrow> split sep s = [s]"
  by (induction s) auto

lemma split_join:
  "xs \<noteq> [] \<Longrightarrow> (\<And>x. x \<in> set xs \<Longrightarrow> sep \<notin> set x) \<Longrightarrow> split sep (join [sep] xs) = xs"
proof (induction xs)
  case Nil
  then show ?case by simp
next
  case (Cons x xs)
  have x: "split sep x = [x]" using Cons.prems by (simp add: split_no_sep)
  show ?case
  proof (cases xs)
    case Nil
    with x show ?thesis by simp
  next
    case (Cons y ys)
    with Cons.IH Cons.prems have "split sep (join [sep] xs) = xs" by simp
    moreover have "join [sep] (x # xs) = x @ sep # join [sep] xs"
      using Cons by simp
    ultimately show ?thesis using x by (simp only: split_append_sep) simp
  qed
qed

lemma toString_digits:
  "c \<in> set (toString n) \<Longrightarrow> 48 \<le> (of_char c :: nat) \<and> (of_char c :: nat) \<le> 57"
proof (induction n arbitrary: c rule: toString.induct)
  case (1 n)
  have digit: "48 \<le> (of_char (char_of (48 + k)) :: nat) \<and> (of_char (char_of (48 + k)) :: nat) \<le> 57"
    if "k < 10" for k :: nat
    using that by simp
  show ?case
  proof (cases "n < 10")
    case True
    then have "toString n = [char_of (48 + n)]" by (simp add: toString.simps [of n])
    with "1.prems" digit [OF True] show ?thesis by simp
  next
    case False
    then have "toString n = toString (n div 10) @ [char_of (48 + n mod 10)]"
      by (simp add: toString.simps [of n])
    with "1.prems" have "c \<in> set (toString (n div 10)) \<or> c = char_of (48 + n mod 10)"
      by auto
    then show ?thesis
    proof
      assume "c \<in> set (toString (n div 10))"
      with False "1.IH" show ?thesis by blast
    next
      have "n mod 10 < 10" by simp
      from digit [OF this] have "48 \<le> (of_char (char_of (48 + n mod 10)) :: nat)
          \<and> (of_char (char_of (48 + n mod 10)) :: nat) \<le> 57" .
      moreover assume "c = char_of (48 + n mod 10)"
      ultimately show ?thesis by simp
    qed
  qed
qed

lemma singleLine_toString: "singleLine (toString n)"
  using toString_digits [of "CHR 0x0A" n] by (auto simp: singleLine_def)

lemma singleLine_Nil: "singleLine []"
  by (simp add: singleLine_def)

lemma singleLine_Cons: "singleLine (c # s) \<longleftrightarrow> c \<noteq> CHR 0x0A \<and> singleLine s"
  by (auto simp: singleLine_def)

lemma singleLine_append: "singleLine (s @ t) \<longleftrightarrow> singleLine s \<and> singleLine t"
  by (auto simp: singleLine_def)

lemma join_fields: "join '','' (csvFields row) = specRowLine row"
  by (simp add: csvFields_def specRowLine_def quoted_def doubleQuote_def)

lemma join_headers: "join '','' headers = specHeader"
  by (simp add: headers_def specHeader_def)

lemma singleLine_specRowLine:
  assumes "\<And>f. f \<in> set (stringFields row) \<Longrightarrow> singleLine f"
  shows "singleLine (specRowLine row)"
proof -
  have "singleLine (url row)" "singleLine (titleContent row)" "singleLine (titleIssue row)"
    "singleLine (titleSuggestion row)" "singleLine (metaDescription row)"
    "singleLine (metaIssue row)" "singleLine (metaSuggestion row)" "singleLine (h1Content row)"
    "singleLine (h1Issue row)" "singleLine (h1Suggestion row)" "singleLine (imageSuggestion row)"
    using assms by (simp_all add: stringFields_def)
  then show ?thesis
    by (simp add: specRowLine_def doubleQuote_def singleLine_Nil singleLine_Cons
        singleLine_append singleLine_toString)
qed

text \<open>
  C9, amended. \<open>convertToCSV\<close> returns the header and one text per row, in input order,
  joined by line feeds; every string field stands between double quotes unchanged and the
  two numbers are unquoted. When no string field of any row holds a line feed, the lines of
  the output are exactly these texts, so there are \<open>length rows + 1\<close> of them.
\<close>

theorem convertToCSV_spec:
  "convertToCSV rows = join [CHR 0x0A] (specHeader # map specRowLine rows)
   \<and> ((\<forall>row \<in> set rows. \<forall>f \<in> set (stringFields row). singleLine f) \<longrightarrow>
        lines (convertToCSV rows) = specHeader # map specRowLine rows
        \<and> length (lines (convertToCSV rows)) = length rows + 1)"
proof -
  have csv: "convertToCSV rows = join [CHR 0x0A] (specHeader # map specRowLine rows)"
    by (simp add: convertToCSV_def Let_def join_fields join_headers del: join.simps)
  have "lines (convertToCSV rows) = specHeader # map specRowLine rows"
    if ok: "\<forall>row \<in> set rows. \<forall>f \<in> set (stringFields row). singleLine f"
  proof -
    have "CHR 0x0A \<notin> set specHeader"
      by (simp add: specHeader_def)
    moreover have "CHR 0x0A \<notin> set (specRowLine row)" if "row \<in> set rows" for row
      using singleLine_specRowLine [of row] ok that by (simp add: singleLine_def)
    ultimately have "split (CHR 0x0A) (join [CHR 0x0A] (specHeader # map specRowLine rows))
        = specHeader # map specRowLine rows"
      by (intro split_join) auto
    then show ?thesis by (simp add: lines_def csv)
  qed
  with csv show ?thesis by simp
qed

theorem convertToCSV_spec_witness:
  "list_all (\<lambda>row. list_all singleLine (stringFields row)) (extractSeoData [pageA])
   \<and> length (lines (convertToCSV (extractSeoData [pageA]))) = 2"
proof -
  have ok: "\<forall>row \<in> set (extractSeoData [pageA]). \<forall>f \<in> set (stringFields row). singleLine f"
    by code_simp
  with convertToCSV_spec [of "extractSeoData [pageA]"]
  have "length (lines (convertToCSV (extractSeoData [pageA]))) = length (extractSeoData [pageA]) + 1"
    by blast
  with ok show ?thesis by (simp add: extractSeoData_def list_all_iff)
qed

text \<open>
  C9, as the claim states it, fails: a field is written as it is, so a line feed inside one
  adds a line. The page whose title is \<open>Home\<close> and \<open>Page\<close> on two lines gives one row,
  and its CSV has three lines, not two.
\<close>

theorem convertToCSV_newline_counterexample:
  "length twoLineRows = 1
   \<and> length (lines (convertToCSV twoLineRows)) = 3
   \<and> length (lines (convertToCSV twoLineRows)) \<noteq> length twoLineRows + 1"
  by code_simp

end
